theory Spec2Isabelle
  imports Main
begin

section \<open>Data model\<close>

subsection \<open>Raw model output and errors\<close>

text \<open>
  The answer of the language model is JSON. A raw output is the decoded top-level
  object, a Python dict from field names to JSON values.
\<close>

datatype json =
    JNull
  | JBool bool
  | JNum int
  | JStr string
  | JList "json list"
  | JObj "(string \<times> json) list"

type_synonym raw_output = "string \<rightharpoonup> json"

text \<open>
  What a failed validation reports about one field: the field is missing, it is not a
  string, it is not a list, its item at an index is not a string, or the validator
  \<open>check_valid_purl\<close> raised on its value.
\<close>

datatype issue =
    Missing string
  | StringType string
  | ListType string
  | ItemStringType string nat
  | InvalidPurl string

text \<open>
  Every way a call of the package can raise. \<open>UnsupportedEcosystemError\<close> is the
  \<open>KeyError\<close> of the lookup in \<open>RANGE_CLASS_BY_SCHEMES\<close>,
  \<open>MalformedRangeError\<close> is the exception of a range class's \<open>from_string\<close>
  (it carries the string that was handed to it), \<open>SchemaValidationError\<close> is a
  model output rejected by \<open>Purl\<close> or \<open>Versions\<close>, \<open>UnexpectedModelBehavior\<close>
  is what \<open>run_sync\<close> raises once the model's answers have been rejected more often
  than the agent retries, \<open>PackageURLError\<close> is the exception of
  \<open>PackageURL.from_string\<close> at the \<open>return\<close> of \<open>get_purl\<close>,
  \<open>ExternalCallFailure\<close> is a failure of the provider call itself, and
  \<open>OpenAIError\<close> is raised by the constructor of the hosted provider when it has no
  API key.
\<close>

datatype error =
    SchemaValidationError "issue list"
  | UnsupportedEcosystemError string
  | MalformedRangeError string
  | UnexpectedModelBehavior
  | PackageURLError string
  | ExternalCallFailure
  | OpenAIError

subsection \<open>The two output schemas\<close>

text \<open>
  \<^verbatim>\<open>
  class Purl(BaseModel):
      string: str

      @field_validator('string')
      def check_valid_purl(cls, v: str) -> str:
          try:
              PackageURL.from_string(v)
          except Exception as e:
              raise ValueError(f"Invalid PURL '{v}': {e}")
          return v

  class Versions(BaseModel):
      affected_versions: List[str]
      fixed_versions:   List[str]
  \<close>
  \<open>PackageURL.from_string\<close> belongs to the packageurl library; it is a parameter
  \<open>from_string\<close> of the model, \<open>None\<close> where the library raises. Neither class
  declares a \<open>model_config\<close>, so fields other than the declared ones are not looked
  at; every declared field is required, since none has a default.
\<close>

record Purl =
  string :: string

record Versions =
  affected_versions :: "string list"
  fixed_versions :: "string list"

definition check_valid_purl :: "(string \<Rightarrow> 'p option) \<Rightarrow> string \<Rightarrow> issue + string" where
  "check_valid_purl from_string v =
     (case from_string v of
        None \<Rightarrow> Inl (InvalidPurl v)
      | Some _ \<Rightarrow> Inr v)"

definition validate_Purl :: "(string \<Rightarrow> 'p option) \<Rightarrow> raw_output \<Rightarrow> error + Purl" where
  "validate_Purl from_string raw =
     (case raw ''string'' of
        None \<Rightarrow> Inl (SchemaValidationError [Missing ''string''])
      | Some (JStr v) \<Rightarrow>
          (case check_valid_purl from_string v of
             Inl i \<Rightarrow> Inl (SchemaValidationError [i])
           | Inr v' \<Rightarrow> Inr \<lparr>string = v'\<rparr>)
      | Some _ \<Rightarrow> Inl (SchemaValidationError [StringType ''string'']))"

fun item_issues :: "string \<Rightarrow> nat \<Rightarrow> json list \<Rightarrow> issue list" where
  "item_issues field i [] = []"
| "item_issues field i (JStr s # js) = item_issues field (Suc i) js"
| "item_issues field i (j # js) = ItemStringType field i # item_issues field (Suc i) js"

fun item_strings :: "json list \<Rightarrow> string list" where
  "item_strings [] = []"
| "item_strings (JStr s # js) = s # item_strings js"
| "item_strings (j # js) = item_strings js"

definition validate_list_field :: "string \<Rightarrow> raw_output \<Rightarrow> issue list + string list" where
  "validate_list_field field raw =
     (case raw field of
        None \<Rightarrow> Inl [Missing field]
      | Some (JList js) \<Rightarrow>
          (if item_issues field 0 js = [] then Inr (item_strings js)
           else Inl (item_issues field 0 js))
      | Some _ \<Rightarrow> Inl [ListType field])"

definition validate_Versions :: "raw_output \<Rightarrow> error + Versions" where
  "validate_Versions raw =
     (case (validate_list_field ''affected_versions'' raw,
            validate_list_field ''fixed_versions'' raw) of
        (Inr a, Inr f) \<Rightarrow> Inr \<lparr>affected_versions = a, fixed_versions = f\<rparr>
      | (Inl ia, Inr f) \<Rightarrow> Inl (SchemaValidationError ia)
      | (Inr a, Inl iz) \<Rightarrow> Inl (SchemaValidationError iz)
      | (Inl ia, Inl iz) \<Rightarrow> Inl (SchemaValidationError (ia @ iz)))"

subsection \<open>Agents and the two parsers\<close>

text \<open>
  The module reads four environment variables once; \<open>os.getenv\<close> gives \<open>None\<close> for
  an unset variable. The three system prompts are fixed texts, named here by a tag. The
  model, provider and agent classes belong to pydantic_ai. Their constructors store
  their arguments, with two things the source leaves to the library: an agent built
  without \<open>retries=\<close> has one retry, and the provider of the hosted branch raises when
  \<open>api_key\<close> is \<open>None\<close> and the environment has no \<open>OPENAI_API_KEY\<close> either, which
  is when the module constant \<open>OPENAI_API_KEY\<close> is \<open>None\<close>.
\<close>

record environ =
  OLLAMA_MODEL_NAME :: "string option"
  OLLAMA_BASE_URL :: "string option"
  OPENAI_API_KEY :: "string option"
  OPENAI_MODEL_NAME :: "string option"

datatype system_prompt =
    prompt_purl_from_summary
  | prompt_version_from_summary
  | prompt_purl_from_cpe

datatype output_type = OutPurl | OutVersions

datatype OpenAIProvider =
    OpenAIProvider_openai_client "string option"
  | OpenAIProvider_api_key "string option"

record OpenAIModel =
  model_name :: "string option"
  provider :: OpenAIProvider

record ModelSettings =
  temperature :: int
  seed :: int

record Agent =
  agent_model :: OpenAIModel
  agent_system_prompt :: system_prompt
  model_settings :: ModelSettings
  agent_output_type :: output_type
  retries :: nat

record VulnerabilitySummaryParser =
  model :: OpenAIModel
  purl_agent :: Agent
  versions_agent :: Agent

record CPEParser =
  model :: OpenAIModel
  purl_agent :: Agent

text \<open>Python truth of an optional string: \<open>None\<close> and the empty string are false.\<close>

definition truthy :: "string option \<Rightarrow> bool" where
  "truthy v = (case v of None \<Rightarrow> False | Some s \<Rightarrow> s \<noteq> [])"

definition select_model :: "environ \<Rightarrow> error + OpenAIModel" where
  "select_model env =
     (if truthy (OLLAMA_MODEL_NAME env) \<and> truthy (OLLAMA_BASE_URL env)
      then Inr \<lparr>model_name = OLLAMA_MODEL_NAME env,
                provider = OpenAIProvider_openai_client (OLLAMA_BASE_URL env)\<rparr>
      else if OPENAI_API_KEY env = None then Inl OpenAIError
      else Inr \<lparr>model_name = OPENAI_MODEL_NAME env,
                provider = OpenAIProvider_api_key (OPENAI_API_KEY env)\<rparr>)"

definition new_Agent :: "OpenAIModel \<Rightarrow> system_prompt \<Rightarrow> output_type \<Rightarrow> Agent" where
  "new_Agent m p t =
     \<lparr>agent_model = m, agent_system_prompt = p,
      model_settings = \<lparr>temperature = 0, seed = 42\<rparr>, agent_output_type = t,
      retries = 1\<rparr>"

definition VulnerabilitySummaryParser_init ::
  "environ \<Rightarrow> error + VulnerabilitySummaryParser" where
  "VulnerabilitySummaryParser_init env =
     (case select_model env of
        Inl e \<Rightarrow> Inl e
      | Inr m \<Rightarrow>
          Inr \<lparr>VulnerabilitySummaryParser.model = m,
               VulnerabilitySummaryParser.purl_agent =
                 new_Agent m prompt_purl_from_summary OutPurl,
               versions_agent = new_Agent m prompt_version_from_summary OutVersions\<rparr>)"

definition CPEParser_init :: "environ \<Rightarrow> error + CPEParser" where
  "CPEParser_init env =
     (case select_model env of
        Inl e \<Rightarrow> Inl e
      | Inr m \<Rightarrow>
          Inr \<lparr>CPEParser.model = m,
               CPEParser.purl_agent = new_Agent m prompt_purl_from_cpe OutPurl\<rparr>)"

text \<open>
  The provider call is outside the package: \<open>llm\<close> maps an agent, a user prompt and
  the answers rejected so far in this run, each with the validation error that was sent
  back, to the next raw output of the model, or to a failure of the call. The first
  request of a run has no rejected answer.

  \<open>run_sync\<close> validates the raw output against the agent's output class. A rejected
  output is sent back to the model and the model is asked again, as long as the agent
  has a retry left; after that \<open>run_sync\<close> raises. \<open>run_validated\<close> is that
  loop, counting down the retries that are left.
\<close>

type_synonym llm = "Agent \<Rightarrow> string \<Rightarrow> (raw_output \<times> error) list \<Rightarrow> error + raw_output"

fun run_validated ::
  "(raw_output \<Rightarrow> error + 'o) \<Rightarrow> llm \<Rightarrow> Agent \<Rightarrow> string \<Rightarrow> nat
     \<Rightarrow> (raw_output \<times> error) list \<Rightarrow> error + 'o" where
  "run_validated validate ask agent user_prompt 0 rejected =
     (case ask agent user_prompt rejected of
        Inl e \<Rightarrow> Inl e
      | Inr raw \<Rightarrow>
          (case validate raw of
             Inr out \<Rightarrow> Inr out
           | Inl err \<Rightarrow> Inl UnexpectedModelBehavior))"
| "run_validated validate ask agent user_prompt (Suc n) rejected =
     (case ask agent user_prompt rejected of
        Inl e \<Rightarrow> Inl e
      | Inr raw \<Rightarrow>
          (case validate raw of
             Inr out \<Rightarrow> Inr out
           | Inl err \<Rightarrow>
               run_validated validate ask agent user_prompt n (rejected @ [(raw, err)])))"

definition run_sync_Purl :: "llm \<Rightarrow> (string \<Rightarrow> 'p option) \<Rightarrow> Agent \<Rightarrow> string \<Rightarrow> error + Purl" where
  "run_sync_Purl ask from_string agent user_prompt =
     run_validated (validate_Purl from_string) ask agent user_prompt (retries agent) []"

definition run_sync_Versions :: "llm \<Rightarrow> Agent \<Rightarrow> string \<Rightarrow> error + Versions" where
  "run_sync_Versions ask agent user_prompt =
     run_validated validate_Versions ask agent user_prompt (retries agent) []"

definition summary_prompt :: "string \<Rightarrow> string" where
  "summary_prompt summary =
     [CHR 0x0A] @ ''        **Vulnerability Summary:**'' @ [CHR 0x0A] @
     ''        '' @ summary @ [CHR 0x0A] @ ''        ''"

definition cpe_prompt :: "string \<Rightarrow> string" where
  "cpe_prompt cpe =
     [CHR 0x0A] @ ''        **Vulnerability Known Affected Software Configurations CPE:**'' @
     [CHR 0x0A] @ ''        '' @ cpe @ [CHR 0x0A] @ ''        ''"

section \<open>Operations\<close>

subsection \<open>Range resolution\<close>

text \<open>
  \<open>RANGE_CLASS_BY_SCHEMES\<close> is a dict of the univers library from a scheme name to a
  range class; the model takes it as a parameter \<open>reg\<close>, a class being its
  \<open>from_string\<close>, \<open>None\<close> where that raises. \<open>resolve\<close> is the list
  comprehension of \<open>get_version_ranges\<close>:
  \<^verbatim>\<open>
  [RANGE_CLASS_BY_SCHEMES[supported_ecosystem].from_string(
       f"vers:{supported_ecosystem}/" + r) for r in ranges]
  \<close>
  For each element the dict is subscripted first, then the string is built and parsed;
  an exception ends the comprehension.
\<close>

type_synonym 'r range_class = "string \<Rightarrow> 'r option"

type_synonym 'r registry = "string \<rightharpoonup> 'r range_class"

definition vers_string :: "string \<Rightarrow> string \<Rightarrow> string" where
  "vers_string supported_ecosystem r = ''vers:'' @ supported_ecosystem @ ''/'' @ r"

fun resolve :: "'r registry \<Rightarrow> string \<Rightarrow> string list \<Rightarrow> error + 'r list" where
  "resolve reg e [] = Inr []"
| "resolve reg e (c # cs) =
     (case reg e of
        None \<Rightarrow> Inl (UnsupportedEcosystemError e)
      | Some cls \<Rightarrow>
          (case cls (vers_string e c) of
             None \<Rightarrow> Inl (MalformedRangeError (vers_string e c))
           | Some r \<Rightarrow>
               (case resolve reg e cs of
                  Inl err \<Rightarrow> Inl err
                | Inr rs \<Rightarrow> Inr (r # rs))))"

subsection \<open>The methods\<close>

text \<open>
  Each method takes the instance and returns it next to its result; no method assigns to
  a field of \<open>self\<close>.
\<close>

definition get_version_ranges ::
  "llm \<Rightarrow> 'r registry \<Rightarrow> VulnerabilitySummaryParser \<Rightarrow> string \<Rightarrow> string
     \<Rightarrow> (error + 'r list \<times> 'r list) \<times> VulnerabilitySummaryParser" where
  "get_version_ranges ask reg self summary supported_ecosystem =
     (case run_sync_Versions ask (versions_agent self) (summary_prompt summary) of
        Inl e \<Rightarrow> (Inl e, self)
      | Inr out \<Rightarrow>
          (case resolve reg supported_ecosystem (affected_versions out) of
             Inl e \<Rightarrow> (Inl e, self)
           | Inr affected_version_objs \<Rightarrow>
               (case resolve reg supported_ecosystem (fixed_versions out) of
                  Inl e \<Rightarrow> (Inl e, self)
                | Inr fixed_version_objs \<Rightarrow>
                    (Inr (affected_version_objs, fixed_version_objs), self))))"

definition get_purl ::
  "llm \<Rightarrow> (string \<Rightarrow> 'p option) \<Rightarrow> VulnerabilitySummaryParser \<Rightarrow> string
     \<Rightarrow> (error + 'p) \<times> VulnerabilitySummaryParser" where
  "get_purl ask from_string self summary =
     (case run_sync_Purl ask from_string (VulnerabilitySummaryParser.purl_agent self)
             (summary_prompt summary) of
        Inl e \<Rightarrow> (Inl e, self)
      | Inr out \<Rightarrow>
          (case from_string (string out) of
             None \<Rightarrow> (Inl (PackageURLError (string out)), self)
           | Some p \<Rightarrow> (Inr p, self)))"

definition CPEParser_get_purl ::
  "llm \<Rightarrow> (string \<Rightarrow> 'p option) \<Rightarrow> CPEParser \<Rightarrow> string \<Rightarrow> (error + 'p) \<times> CPEParser" where
  "CPEParser_get_purl ask from_string self cpe =
     (case run_sync_Purl ask from_string (CPEParser.purl_agent self) (cpe_prompt cpe) of
        Inl e \<Rightarrow> (Inl e, self)
      | Inr out \<Rightarrow>
          (case from_string (string out) of
             None \<Rightarrow> (Inl (PackageURLError (string out)), self)
           | Some p \<Rightarrow> (Inr p, self)))"

section \<open>Concrete parsers for running the model\<close>

text \<open>
  The two library parsers are parameters of the model. To run it on concrete inputs,
  this section gives one value for each parameter.
\<close>

definition split_first :: "char \<Rightarrow> string \<Rightarrow> (string \<times> string) option" where
  "split_first c s =
     (if c \<in> set s
      then Some (takeWhile (\<lambda>x. x \<noteq> c) s, tl (dropWhile (\<lambda>x. x \<noteq> c) s))
      else None)"

definition split_last :: "char \<Rightarrow> string \<Rightarrow> (string \<times> string) option" where
  "split_last c s =
     (if c \<in> set s
      then Some (rev (tl (dropWhile (\<lambda>x. x \<noteq> c) (rev s))),
                 rev (takeWhile (\<lambda>x. x \<noteq> c) (rev s)))
      else None)"

text \<open>
  The parts of a Package URL, \<open>scheme:type/namespace/name@version?qualifiers#subpath\<close>;
  the scheme is always \<open>pkg\<close>.
\<close>

record PackageURL =
  purl_type :: string
  namespace :: "string option"
  name :: string
  version :: "string option"
  qualifiers :: "string option"
  subpath :: "string option"

definition or_None :: "string \<Rightarrow> string option" where
  "or_None s = (if s = [] then None else Some s)"

definition optional_after :: "char \<Rightarrow> string \<Rightarrow> string \<times> string option" where
  "optional_after c s =
     (case split_first c s of None \<Rightarrow> (s, None) | Some (a, b) \<Rightarrow> (a, or_None b))"

definition optional_after_last :: "char \<Rightarrow> string \<Rightarrow> string \<times> string option" where
  "optional_after_last c s =
     (case split_last c s of None \<Rightarrow> (s, None) | Some (a, b) \<Rightarrow> (a, or_None b))"

text \<open>
  A parser for running the model where it takes \<open>PackageURL.from_string\<close> as a
  parameter. It splits a string along
  \<open>scheme:type/namespace/name@version?qualifiers#subpath\<close>, wants the scheme
  \<open>pkg\<close>, a type and a name, and takes an optional part that is empty for absent. It
  does not check the type against the registered package types and decodes nothing, so
  it is not the library's parser; it is run only on the inputs of the examples below.
\<close>

definition purl_from_string :: "string \<Rightarrow> PackageURL option" where
  "purl_from_string s =
     (case split_first (CHR '':'') s of
        None \<Rightarrow> None
      | Some (scheme, rest) \<Rightarrow>
          if scheme \<noteq> ''pkg'' then None
          else
            (case split_first (CHR ''/'') (dropWhile (\<lambda>x. x = CHR ''/'') rest) of
               None \<Rightarrow> None
             | Some (ty, rest2) \<Rightarrow>
                 if ty = [] then None
                 else
                   (let (rest3, sub) = optional_after (CHR ''#'') rest2;
                        (rest4, quals) = optional_after (CHR ''?'') rest3;
                        (rest5, ver) = optional_after_last (CHR ''@'') rest4;
                        (nm, ns) =
                          (case split_last (CHR ''/'') rest5 of
                             None \<Rightarrow> (rest5, None)
                           | Some (a, b) \<Rightarrow> (b, or_None a))
                    in if nm = [] then None
                       else Some \<lparr>purl_type = ty, namespace = ns, name = nm, version = ver,
                                  qualifiers = quals, subpath = sub\<rparr>)))"

text \<open>
  A range class in the manner of univers, for running \<open>resolve\<close>: \<open>from_string\<close>
  removes the spaces, wants the \<open>vers\<close> scheme and a versioning scheme of the
  registry, and reads one constraint, an optional comparator before a version made of
  digits and dots.
\<close>

datatype comparator = GE | LE | GT | LT | EQ

record sample_range =
  versioning_scheme :: string
  range_comparator :: comparator
  range_version :: string

definition split_comparator :: "string \<Rightarrow> comparator \<times> string" where
  "split_comparator c =
     (if take 2 c = ''>='' then (GE, drop 2 c)
      else if take 2 c = ''<='' then (LE, drop 2 c)
      else if take 1 c = ''>'' then (GT, drop 1 c)
      else if take 1 c = ''<'' then (LT, drop 1 c)
      else (EQ, c))"

definition is_version :: "string \<Rightarrow> bool" where
  "is_version v = (v \<noteq> [] \<and> list_all (\<lambda>x. x \<in> set ''0123456789.'') v)"

definition sample_from_string :: "string list \<Rightarrow> string \<Rightarrow> sample_range option" where
  "sample_from_string schemes vers =
     (case split_first (CHR '':'') (filter (\<lambda>x. x \<noteq> CHR '' '') vers) of
        None \<Rightarrow> None
      | Some (uri_scheme, spec) \<Rightarrow>
          if uri_scheme \<noteq> ''vers'' then None
          else
            (case split_first (CHR ''/'') spec of
               None \<Rightarrow> None
             | Some (scheme, constraints) \<Rightarrow>
                 if scheme \<notin> set schemes then None
                 else
                   (let (cmp, v) = split_comparator constraints
                    in if is_version v
                       then Some \<lparr>versioning_scheme = scheme, range_comparator = cmp,
                                  range_version = v\<rparr>
                       else None)))"

definition sample_registry :: "string list \<Rightarrow> sample_range registry" where
  "sample_registry schemes =
     (\<lambda>e. if e \<in> set schemes then Some (sample_from_string schemes) else None)"

text \<open>
  A model that gives the same raw output to every request, and one that gives the
  outputs of a list in turn, the next one after each rejection.
\<close>

definition answer :: "raw_output \<Rightarrow> llm" where
  "answer raw agent user_prompt rejected = Inr raw"

definition answers :: "raw_output list \<Rightarrow> llm" where
  "answers raws agent user_prompt rejected =
     (if length rejected < length raws then Inr (raws ! length rejected)
      else Inl ExternalCallFailure)"

text \<open>
  An environment with no variable set, one that selects a local model, and the two
  parsers that the constructors build in the second.
\<close>

definition no_environ :: environ where
  "no_environ =
     \<lparr>OLLAMA_MODEL_NAME = None, OLLAMA_BASE_URL = None,
      OPENAI_API_KEY = None, OPENAI_MODEL_NAME = None\<rparr>"

definition local_environ :: environ where
  "local_environ =
     \<lparr>OLLAMA_MODEL_NAME = Some ''llama3'', OLLAMA_BASE_URL = Some ''http://localhost:11434/v1'',
      OPENAI_API_KEY = None, OPENAI_MODEL_NAME = None\<rparr>"

definition local_model :: OpenAIModel where
  "local_model =
     \<lparr>model_name = Some ''llama3'',
      provider = OpenAIProvider_openai_client (Some ''http://localhost:11434/v1'')\<rparr>"

definition summary_parser :: VulnerabilitySummaryParser where
  "summary_parser =
     \<lparr>VulnerabilitySummaryParser.model = local_model,
      VulnerabilitySummaryParser.purl_agent =
        new_Agent local_model prompt_purl_from_summary OutPurl,
      versions_agent = new_Agent local_model prompt_version_from_summary OutVersions\<rparr>"

definition cpe_parser :: CPEParser where
  "cpe_parser =
     \<lparr>CPEParser.model = local_model,
      CPEParser.purl_agent = new_Agent local_model prompt_purl_from_cpe OutPurl\<rparr>"

section \<open>Properties\<close>

subsection \<open>Auxiliary facts\<close>

lemma resolve_Inr_iff:
  "reg e = Some cls \<Longrightarrow>
     (resolve reg e cs = Inr rs) = (map (\<lambda>c. cls (vers_string e c)) cs = map Some rs)"
proof (induction cs arbitrary: rs)
  case Nil
  then show ?case by auto
next
  case (Cons c cs)
  show ?case
  proof (cases "cls (vers_string e c)")
    case None
    with Cons.prems show ?thesis by (cases rs) auto
  next
    case (Some r)
    show ?thesis
    proof (cases "resolve reg e cs")
      case (Inl err)
      have "map (\<lambda>c. cls (vers_string e c)) cs \<noteq> map Some rs'" for rs'
        using Cons.IH [OF Cons.prems, of rs'] Inl by simp
      with Cons.prems Some Inl show ?thesis by (cases rs) auto
    next
      case (Inr rs0)
      have "map (\<lambda>c. cls (vers_string e c)) cs = map Some rs0"
        using Cons.IH [OF Cons.prems, of rs0] Inr by simp
      with Cons.prems Some Inr show ?thesis
        by (cases rs) (auto simp: inj_map_eq_map)
    qed
  qed
qed

lemma resolve_Inl_cases:
  "reg e = Some cls \<Longrightarrow> resolve reg e cs = Inl err \<Longrightarrow>
     \<exists>c\<in>set cs. cls (vers_string e c) = None \<and> err = MalformedRangeError (vers_string e c)"
  by (induction cs) (auto split: option.splits sum.splits)

lemma resolve_unparsable:
  "reg e = Some cls \<Longrightarrow> c \<in> set cs \<Longrightarrow> cls (vers_string e c) = None \<Longrightarrow>
     \<exists>err. resolve reg e cs = Inl err"
  by (induction cs) (auto split: option.splits sum.splits)

lemma resolve_unregistered:
  "reg e = None \<Longrightarrow> resolve reg e (c # cs) = Inl (UnsupportedEcosystemError e)"
  by simp

lemma item_issues_map_JStr: "item_issues field i (map JStr ss) = []"
  by (induction ss arbitrary: i) auto

lemma item_strings_map_JStr: "item_strings (map JStr ss) = ss"
  by (induction ss) auto

lemma item_issues_Nil_D: "item_issues field i js = [] \<Longrightarrow> js = map JStr (item_strings js)"
  by (induction field i js rule: item_issues.induct) auto

lemma validate_list_field_Inr_iff:
  "(validate_list_field field raw = Inr ss) = (raw field = Some (JList (map JStr ss)))"
proof
  assume "validate_list_field field raw = Inr ss"
  then obtain js where js: "raw field = Some (JList js)" "item_issues field 0 js = []"
    "ss = item_strings js"
    by (auto simp: validate_list_field_def split: option.splits json.splits if_splits)
  from item_issues_Nil_D [OF js(2)] js show "raw field = Some (JList (map JStr ss))"
    by simp
next
  assume "raw field = Some (JList (map JStr ss))"
  then show "validate_list_field field raw = Inr ss"
    by (simp add: validate_list_field_def item_issues_map_JStr item_strings_map_JStr)
qed

lemma validate_Versions_Inr_iff:
  "(validate_Versions raw = Inr out) =
     (raw ''affected_versions'' = Some (JList (map JStr (affected_versions out))) \<and>
      raw ''fixed_versions'' = Some (JList (map JStr (fixed_versions out))))"
proof -
  have "(validate_Versions raw = Inr out) =
          (validate_list_field ''affected_versions'' raw = Inr (affected_versions out) \<and>
           validate_list_field ''fixed_versions'' raw = Inr (fixed_versions out))"
    by (cases "validate_list_field ''affected_versions'' raw";
        cases "validate_list_field ''fixed_versions'' raw")
       (auto simp: validate_Versions_def)
  then show ?thesis by (simp add: validate_list_field_Inr_iff)
qed

lemma validate_Versions_Inl:
  "validate_Versions raw = Inl err \<Longrightarrow> \<exists>is. err = SchemaValidationError is"
  by (cases "validate_list_field ''affected_versions'' raw";
      cases "validate_list_field ''fixed_versions'' raw")
     (auto simp: validate_Versions_def)

lemma validate_Purl_Inr_iff:
  "(validate_Purl from_string raw = Inr out) =
     (raw ''string'' = Some (JStr (string out)) \<and> from_string (string out) \<noteq> None)"
  by (auto simp: validate_Purl_def check_valid_purl_def
           split: option.splits json.splits sum.splits)

lemma validate_Purl_Inl:
  "validate_Purl from_string raw = Inl err \<Longrightarrow> \<exists>is. err = SchemaValidationError is"
  by (auto simp: validate_Purl_def check_valid_purl_def
           split: option.splits json.splits sum.splits)

lemma get_version_ranges_returns_self:
  "snd (get_version_ranges ask reg self summary e) = self"
  by (simp add: get_version_ranges_def split: sum.splits)

lemma get_purl_returns_self: "snd (get_purl ask from_string self summary) = self"
  by (simp add: get_purl_def split: sum.splits option.splits)

lemma CPEParser_get_purl_returns_self:
  "snd (CPEParser_get_purl ask from_string self cpe) = self"
  by (simp add: CPEParser_get_purl_def split: sum.splits option.splits)

lemma run_validated_first_valid:
  "ask agent user_prompt rejected = Inr raw \<Longrightarrow> validate raw = Inr out \<Longrightarrow>
     run_validated validate ask agent user_prompt n rejected = Inr out"
  by (cases n) simp_all

lemma run_validated_all_rejected:
  "(\<forall>rejected raw. ask agent user_prompt rejected = Inr raw \<longrightarrow>
      (\<exists>err. validate raw = Inl err)) \<Longrightarrow>
     \<exists>err. run_validated validate ask agent user_prompt n rejected = Inl err"
proof (induction n arbitrary: rejected)
  case 0
  show ?case
  proof (cases "ask agent user_prompt rejected")
    case (Inl e)
    then show ?thesis by simp
  next
    case (Inr raw)
    with "0.prems" obtain err where "validate raw = Inl err" by blast
    with Inr show ?thesis by simp
  qed
next
  case (Suc n)
  show ?case
  proof (cases "ask agent user_prompt rejected")
    case (Inl e)
    then show ?thesis by simp
  next
    case (Inr raw)
    with Suc.prems obtain err where err: "validate raw = Inl err" by blast
    from Suc.IH [OF Suc.prems, of "rejected @ [(raw, err)]"] Inr err
    show ?thesis by simp
  qed
qed

lemma run_sync_Versions_first_valid:
  "ask agent user_prompt [] = Inr raw \<Longrightarrow> validate_Versions raw = Inr out \<Longrightarrow>
     run_sync_Versions ask agent user_prompt = Inr out"
  unfolding run_sync_Versions_def by (rule run_validated_first_valid)

lemma run_sync_Purl_first_valid:
  "ask agent user_prompt [] = Inr raw \<Longrightarrow> validate_Purl from_string raw = Inr out \<Longrightarrow>
     run_sync_Purl ask from_string agent user_prompt = Inr out"
  unfolding run_sync_Purl_def by (rule run_validated_first_valid)

lemma run_sync_Versions_answer:
  "validate_Versions raw = Inr out \<Longrightarrow>
     run_sync_Versions (answer raw) agent user_prompt = Inr out"
  by (rule run_sync_Versions_first_valid [where raw = raw]) (simp add: answer_def)

lemma parsers_constructed:
  "VulnerabilitySummaryParser_init local_environ = Inr summary_parser \<and>
   CPEParser_init local_environ = Inr cpe_parser \<and>
   VulnerabilitySummaryParser_init no_environ = Inl OpenAIError"
  by (simp add: VulnerabilitySummaryParser_init_def CPEParser_init_def select_model_def
        truthy_def local_environ_def no_environ_def summary_parser_def cpe_parser_def
        local_model_def)

lemma second_answer_is_used:
  "fst (get_purl (answers [Map.empty, [''string'' \<mapsto> JStr ''pkg:pypi/django@4.2.0'']])
          purl_from_string summary_parser ''a summary'') =
     Inr \<lparr>purl_type = ''pypi'', namespace = None, name = ''django'',
          version = Some ''4.2.0'', qualifiers = None, subpath = None\<rparr> \<and>
   fst (get_version_ranges
          (answers [Map.empty, [''affected_versions'' \<mapsto> JList [],
                                ''fixed_versions'' \<mapsto> JList []]])
          (sample_registry [''pypi'']) summary_parser ''a summary'' ''pypi'') = Inr ([], [])"
proof -
  have parse: "purl_from_string ''pkg:pypi/django@4.2.0'' =
      Some \<lparr>purl_type = ''pypi'', namespace = None, name = ''django'',
            version = Some ''4.2.0'', qualifiers = None, subpath = None\<rparr>"
    by (simp add: purl_from_string_def split_first_def split_last_def optional_after_def
          optional_after_last_def or_None_def)
  have "run_sync_Purl (answers [Map.empty, [''string'' \<mapsto> JStr ''pkg:pypi/django@4.2.0'']])
      purl_from_string (VulnerabilitySummaryParser.purl_agent summary_parser)
      (summary_prompt ''a summary'') = Inr \<lparr>string = ''pkg:pypi/django@4.2.0''\<rparr>"
    using parse
    by (simp add: run_sync_Purl_def summary_parser_def new_Agent_def answers_def
          validate_Purl_def check_valid_purl_def)
  with parse have one: "fst (get_purl
      (answers [Map.empty, [''string'' \<mapsto> JStr ''pkg:pypi/django@4.2.0'']])
      purl_from_string summary_parser ''a summary'') =
      Inr \<lparr>purl_type = ''pypi'', namespace = None, name = ''django'',
           version = Some ''4.2.0'', qualifiers = None, subpath = None\<rparr>"
    by (simp add: get_purl_def)
  have "run_sync_Versions
      (answers [Map.empty, [''affected_versions'' \<mapsto> JList [],
                            ''fixed_versions'' \<mapsto> JList []]])
      (versions_agent summary_parser) (summary_prompt ''a summary'') =
      Inr \<lparr>affected_versions = [], fixed_versions = []\<rparr>"
    by (simp add: run_sync_Versions_def summary_parser_def new_Agent_def answers_def
          validate_Versions_def validate_list_field_def)
  then have two: "fst (get_version_ranges
      (answers [Map.empty, [''affected_versions'' \<mapsto> JList [],
                            ''fixed_versions'' \<mapsto> JList []]])
      (sample_registry [''pypi'']) summary_parser ''a summary'' ''pypi'') = Inr ([], [])"
    by (simp add: get_version_ranges_def)
  from one two show ?thesis by simp
qed

subsection \<open>Claims\<close>

text \<open>
  C1. For a registered ecosystem \<open>e\<close> and any list of constraint strings, the
  range-resolution step of \<open>get_version_ranges\<close> returns a list \<open>rs\<close> exactly
  when \<open>rs\<close> is, element by element and in input order, the parse of
  \<open>"vers:" + e + "/" + c\<close> under the range class registered for \<open>e\<close>: the
  output has as many elements as the input, nothing is merged or dropped, it exists
  whenever every constraint parses, and the empty input gives the empty list. The two
  lists returned by \<open>get_version_ranges\<close> are these resolutions of the affected and
  of the fixed constraints.
\<close>

theorem resolve_in_input_order:
  assumes "reg e = Some cls"
  shows "(resolve reg e cs = Inr rs) =
           (map (\<lambda>c. cls (''vers:'' @ e @ ''/'' @ c)) cs = map Some rs) \<and>
         (resolve reg e cs = Inr rs \<longrightarrow>
            length rs = length cs \<and>
            (\<forall>i<length cs. cls (''vers:'' @ e @ ''/'' @ cs ! i) = Some (rs ! i))) \<and>
         ((\<forall>c\<in>set cs. cls (''vers:'' @ e @ ''/'' @ c) \<noteq> None) \<longrightarrow>
            (\<exists>rs'. resolve reg e cs = Inr rs')) \<and>
         resolve reg e [] = Inr [] \<and>
         (run_sync_Versions ask (versions_agent self) (summary_prompt summary) = Inr out \<longrightarrow>
            (fst (get_version_ranges ask reg self summary e) = Inr (a, f)) =
              (map (\<lambda>c. cls (''vers:'' @ e @ ''/'' @ c)) (affected_versions out) = map Some a \<and>
               map (\<lambda>c. cls (''vers:'' @ e @ ''/'' @ c)) (fixed_versions out) = map Some f))"
proof -
  let ?p = "\<lambda>c. cls (''vers:'' @ e @ ''/'' @ c)"
  have iff: "(resolve reg e xs = Inr ys) = (map ?p xs = map Some ys)" for xs ys
    using resolve_Inr_iff [where reg = reg and e = e and cls = cls and cs = xs and rs = ys]
      assms by (simp add: vers_string_def)
  have len: "length rs = length cs \<and> (\<forall>i<length cs. ?p (cs ! i) = Some (rs ! i))"
    if "resolve reg e cs = Inr rs"
  proof -
    from that iff have eq: "map ?p cs = map Some rs" by simp
    then have l: "length cs = length rs" by (rule map_eq_imp_length_eq)
    have "?p (cs ! i) = Some (rs ! i)" if "i < length cs" for i
    proof -
      have "map ?p cs ! i = map Some rs ! i" using eq by simp
      with that l show ?thesis by simp
    qed
    with l show ?thesis by simp
  qed
  have tot: "\<exists>rs'. resolve reg e cs = Inr rs'" if "\<forall>c\<in>set cs. ?p c \<noteq> None"
  proof -
    have "map ?p cs = map Some (map (\<lambda>c. the (?p c)) cs)"
      using that by (induction cs) auto
    with iff show ?thesis by blast
  qed
  have gvr: "(fst (get_version_ranges ask reg self summary e) = Inr (a, f)) =
               (map ?p (affected_versions out) = map Some a \<and>
                map ?p (fixed_versions out) = map Some f)"
    if "run_sync_Versions ask (versions_agent self) (summary_prompt summary) = Inr out"
    using that iff [of "affected_versions out" a] iff [of "fixed_versions out" f]
    by (auto simp: get_version_ranges_def split: sum.splits)
  from iff len tot gvr show ?thesis by simp
qed

theorem resolve_in_input_order_witness:
  "sample_registry [''pypi'', ''npm''] ''pypi'' = Some (sample_from_string [''pypi'', ''npm'']) \<and>
   resolve (sample_registry [''pypi'', ''npm'']) ''pypi'' [''>=1.2.3'', ''<2.0.0''] =
     Inr [\<lparr>versioning_scheme = ''pypi'', range_comparator = GE, range_version = ''1.2.3''\<rparr>,
          \<lparr>versioning_scheme = ''pypi'', range_comparator = LT, range_version = ''2.0.0''\<rparr>] \<and>
   run_sync_Versions
     (answer [''affected_versions'' \<mapsto> JList [JStr ''>=1.2.3'', JStr ''<2.0.0''],
              ''fixed_versions'' \<mapsto> JList [JStr ''2.0.0'']])
     (versions_agent (summary_parser))
     (summary_prompt ''affects versions >=1.2.3 and <2.0.0, fixed in 2.0.0'') =
     Inr \<lparr>affected_versions = [''>=1.2.3'', ''<2.0.0''], fixed_versions = [''2.0.0'']\<rparr> \<and>
   fst (get_version_ranges
     (answer [''affected_versions'' \<mapsto> JList [JStr ''>=1.2.3'', JStr ''<2.0.0''],
              ''fixed_versions'' \<mapsto> JList [JStr ''2.0.0'']])
     (sample_registry [''pypi'', ''npm''])
     (summary_parser)
     ''affects versions >=1.2.3 and <2.0.0, fixed in 2.0.0'' ''pypi'') =
     Inr ([\<lparr>versioning_scheme = ''pypi'', range_comparator = GE, range_version = ''1.2.3''\<rparr>,
           \<lparr>versioning_scheme = ''pypi'', range_comparator = LT, range_version = ''2.0.0''\<rparr>],
          [\<lparr>versioning_scheme = ''pypi'', range_comparator = EQ, range_version = ''2.0.0''\<rparr>])"
proof -
  let ?reg = "sample_registry [''pypi'', ''npm'']"
  let ?cls = "sample_from_string [''pypi'', ''npm'']"
  let ?raw = "[''affected_versions'' \<mapsto> JList [JStr ''>=1.2.3'', JStr ''<2.0.0''],
               ''fixed_versions'' \<mapsto> JList [JStr ''2.0.0'']]"
  let ?ask = "answer ?raw"
  let ?self = "summary_parser"
  let ?summary = "''affects versions >=1.2.3 and <2.0.0, fixed in 2.0.0''"
  let ?out = "\<lparr>affected_versions = [''>=1.2.3'', ''<2.0.0''], fixed_versions = [''2.0.0'']\<rparr>"
  have h: "?reg ''pypi'' = Some ?cls"
    by (simp add: sample_registry_def)
  have p1: "?cls ''vers:pypi/>=1.2.3'' =
      Some \<lparr>versioning_scheme = ''pypi'', range_comparator = GE, range_version = ''1.2.3''\<rparr>"
    by (simp add: sample_from_string_def split_first_def split_comparator_def is_version_def)
  have p2: "?cls ''vers:pypi/<2.0.0'' =
      Some \<lparr>versioning_scheme = ''pypi'', range_comparator = LT, range_version = ''2.0.0''\<rparr>"
    by (simp add: sample_from_string_def split_first_def split_comparator_def is_version_def)
  have p3: "?cls ''vers:pypi/2.0.0'' =
      Some \<lparr>versioning_scheme = ''pypi'', range_comparator = EQ, range_version = ''2.0.0''\<rparr>"
    by (simp add: sample_from_string_def split_first_def split_comparator_def is_version_def)
  have run: "run_sync_Versions ?ask (versions_agent ?self) (summary_prompt ?summary) = Inr ?out"
    by (rule run_sync_Versions_answer)
      (simp add: validate_Versions_def validate_list_field_def)
  note t = resolve_in_input_order [where reg = ?reg and e = "''pypi''" and cls = ?cls
      and ask = ?ask and self = ?self and summary = ?summary and out = ?out, OF h]
  have r: "resolve ?reg ''pypi'' [''>=1.2.3'', ''<2.0.0''] =
      Inr [\<lparr>versioning_scheme = ''pypi'', range_comparator = GE, range_version = ''1.2.3''\<rparr>,
           \<lparr>versioning_scheme = ''pypi'', range_comparator = LT, range_version = ''2.0.0''\<rparr>]"
    using t [THEN conjunct1, of "[''>=1.2.3'', ''<2.0.0'']"] p1 p2 by simp
  have g: "fst (get_version_ranges ?ask ?reg ?self ?summary ''pypi'') =
     Inr ([\<lparr>versioning_scheme = ''pypi'', range_comparator = GE, range_version = ''1.2.3''\<rparr>,
           \<lparr>versioning_scheme = ''pypi'', range_comparator = LT, range_version = ''2.0.0''\<rparr>],
          [\<lparr>versioning_scheme = ''pypi'', range_comparator = EQ, range_version = ''2.0.0''\<rparr>])"
    using t [THEN conjunct2, THEN conjunct2, THEN conjunct2, THEN conjunct2, rule_format, OF run]
      p1 p2 p3 by simp
  from h r run g show ?thesis by simp
qed



text \<open>
  C3. When the model output has a field \<open>string\<close> holding a string \<open>s\<close> that
  parses as a Package URL, validation keeps \<open>s\<close> as it is and \<open>get_purl\<close>
  returns the parse of \<open>s\<close>; nothing is normalised in between. For
  \<open>pkg:pypi/django@4.2.0\<close> the result has type \<open>pypi\<close>, name \<open>django\<close> and
  version \<open>4.2.0\<close>.
\<close>

theorem get_purl_returns_parse:
  assumes "ask (VulnerabilitySummaryParser.purl_agent self) (summary_prompt summary) [] =
      Inr raw"
    and "raw ''string'' = Some (JStr s)"
    and "from_string s = Some p"
  shows "validate_Purl from_string raw = Inr \<lparr>string = s\<rparr> \<and>
         fst (get_purl ask from_string self summary) = Inr p"
proof -
  have v: "validate_Purl from_string raw = Inr \<lparr>string = s\<rparr>"
    using assms(2,3) by (simp add: validate_Purl_def check_valid_purl_def)
  have "run_sync_Purl ask from_string (VulnerabilitySummaryParser.purl_agent self)
      (summary_prompt summary) = Inr \<lparr>string = s\<rparr>"
    using run_sync_Purl_first_valid
      [where ask = ask and agent = "VulnerabilitySummaryParser.purl_agent self"
         and user_prompt = "summary_prompt summary" and raw = raw
         and from_string = from_string and out = "\<lparr>string = s\<rparr>"]
      assms(1) v by simp
  with assms(3) v show ?thesis by (simp add: get_purl_def)
qed

theorem get_purl_returns_parse_witness:
  "purl_from_string ''pkg:pypi/django@4.2.0'' =
     Some \<lparr>purl_type = ''pypi'', namespace = None, name = ''django'',
           version = Some ''4.2.0'', qualifiers = None, subpath = None\<rparr> \<and>
   validate_Purl purl_from_string [''string'' \<mapsto> JStr ''pkg:pypi/django@4.2.0''] =
     Inr \<lparr>string = ''pkg:pypi/django@4.2.0''\<rparr> \<and>
   fst (get_purl (answer [''string'' \<mapsto> JStr ''pkg:pypi/django@4.2.0'']) purl_from_string
          (summary_parser) ''a summary'') =
     Inr \<lparr>purl_type = ''pypi'', namespace = None, name = ''django'',
          version = Some ''4.2.0'', qualifiers = None, subpath = None\<rparr>"
proof -
  let ?raw = "[''string'' \<mapsto> JStr ''pkg:pypi/django@4.2.0'']"
  let ?self = "summary_parser"
  have parse: "purl_from_string ''pkg:pypi/django@4.2.0'' =
      Some \<lparr>purl_type = ''pypi'', namespace = None, name = ''django'',
            version = Some ''4.2.0'', qualifiers = None, subpath = None\<rparr>"
    by (simp add: purl_from_string_def split_first_def split_last_def optional_after_def
          optional_after_last_def or_None_def)
  have ask: "answer ?raw (VulnerabilitySummaryParser.purl_agent ?self)
      (summary_prompt ''a summary'') [] = Inr ?raw"
    by (simp add: answer_def)
  have field: "?raw ''string'' = Some (JStr ''pkg:pypi/django@4.2.0'')"
    by simp
  from get_purl_returns_parse
    [where ask = "answer ?raw" and self = ?self and summary = "''a summary''" and raw = ?raw
       and s = "''pkg:pypi/django@4.2.0''" and from_string = purl_from_string,
     OF ask field parse] parse
  show ?thesis by simp
qed

text \<open>
  C4. A raw model output whose field \<open>string\<close> is absent, is not a string, or is a
  string that does not parse as a Package URL fails schema-A validation with
  \<open>SchemaValidationError\<close>, so that validation yields no package identifier; the
  empty object fails because \<open>string\<close> is missing. When schema A rejects every
  answer the model gives, \<open>get_purl\<close> of either parser fails as well.
\<close>

theorem validate_Purl_rejects:
  assumes "raw ''string'' = None \<or>
           (\<exists>j. raw ''string'' = Some j \<and> (\<forall>s. j \<noteq> JStr s)) \<or>
           (\<exists>s. raw ''string'' = Some (JStr s) \<and> from_string s = None)"
  shows "(\<exists>is. validate_Purl from_string raw = Inl (SchemaValidationError is)) \<and>
         validate_Purl from_string Map.empty = Inl (SchemaValidationError [Missing ''string'']) \<and>
         ((\<forall>rejected r.
             ask (VulnerabilitySummaryParser.purl_agent self) (summary_prompt summary) rejected =
               Inr r \<longrightarrow>
               (\<exists>is. validate_Purl from_string r = Inl (SchemaValidationError is))) \<longrightarrow>
            (\<exists>err. fst (get_purl ask from_string self summary) = Inl err)) \<and>
         ((\<forall>rejected r.
             ask (CPEParser.purl_agent cself) (cpe_prompt cpe) rejected = Inr r \<longrightarrow>
               (\<exists>is. validate_Purl from_string r = Inl (SchemaValidationError is))) \<longrightarrow>
            (\<exists>err. fst (CPEParser_get_purl ask from_string cself cpe) = Inl err))"
proof -
  have rejected: "\<exists>is. validate_Purl from_string raw = Inl (SchemaValidationError is)"
    using assms
    by (auto simp: validate_Purl_def check_valid_purl_def split: json.splits)
  have empty: "validate_Purl from_string Map.empty =
      Inl (SchemaValidationError [Missing ''string''])"
    by (simp add: validate_Purl_def)
  have run: "\<exists>err. run_sync_Purl ask from_string agent user_prompt = Inl err"
    if all: "\<forall>rejected r. ask agent user_prompt rejected = Inr r \<longrightarrow>
        (\<exists>is. validate_Purl from_string r = Inl (SchemaValidationError is))"
    for agent user_prompt
  proof -
    from all have "\<forall>rejected r. ask agent user_prompt rejected = Inr r \<longrightarrow>
        (\<exists>err. validate_Purl from_string r = Inl err)" by blast
    from run_validated_all_rejected
      [where ask = ask and agent = agent and user_prompt = user_prompt
         and validate = "validate_Purl from_string" and n = "retries agent"
         and rejected = "[]", OF this]
    show ?thesis by (simp add: run_sync_Purl_def)
  qed
  have summary: "\<exists>err. fst (get_purl ask from_string self summary) = Inl err"
    if "\<forall>rejected r.
        ask (VulnerabilitySummaryParser.purl_agent self) (summary_prompt summary) rejected =
          Inr r \<longrightarrow>
          (\<exists>is. validate_Purl from_string r = Inl (SchemaValidationError is))"
    using run [OF that] by (auto simp: get_purl_def)
  have cpe: "\<exists>err. fst (CPEParser_get_purl ask from_string cself cpe) = Inl err"
    if "\<forall>rejected r.
        ask (CPEParser.purl_agent cself) (cpe_prompt cpe) rejected = Inr r \<longrightarrow>
          (\<exists>is. validate_Purl from_string r = Inl (SchemaValidationError is))"
    using run [OF that] by (auto simp: CPEParser_get_purl_def)
  from rejected empty summary cpe show ?thesis by blast
qed

theorem validate_Purl_rejects_witness:
  "validate_Purl purl_from_string Map.empty = Inl (SchemaValidationError [Missing ''string'']) \<and>
   validate_Purl purl_from_string [''string'' \<mapsto> JNum 7] =
     Inl (SchemaValidationError [StringType ''string'']) \<and>
   purl_from_string ''django'' = None \<and>
   validate_Purl purl_from_string [''string'' \<mapsto> JStr ''django''] =
     Inl (SchemaValidationError [InvalidPurl ''django'']) \<and>
   fst (get_purl (answer Map.empty) purl_from_string summary_parser ''a summary'') =
     Inl UnexpectedModelBehavior \<and>
   fst (CPEParser_get_purl (answer [''string'' \<mapsto> JStr ''django'']) purl_from_string
          cpe_parser ''cpe:2.3:a:djangoproject:django:4.2.0'') =
     Inl UnexpectedModelBehavior"
proof -
  let ?cpe = "''cpe:2.3:a:djangoproject:django:4.2.0''"
  let ?raw2 = "[''string'' \<mapsto> JNum 7]"
  let ?raw3 = "[''string'' \<mapsto> JStr ''django'']"
  have bad: "purl_from_string ''django'' = None"
    by (simp add: purl_from_string_def split_first_def)
  have h1: "Map.empty ''string'' = None \<or>
      (\<exists>j. Map.empty ''string'' = Some j \<and> (\<forall>s. j \<noteq> JStr s)) \<or>
      (\<exists>s. Map.empty ''string'' = Some (JStr s) \<and> purl_from_string s = None)"
    by simp
  have h2: "?raw2 ''string'' = None \<or>
      (\<exists>j. ?raw2 ''string'' = Some j \<and> (\<forall>s. j \<noteq> JStr s)) \<or>
      (\<exists>s. ?raw2 ''string'' = Some (JStr s) \<and> purl_from_string s = None)"
    by simp
  have h3: "?raw3 ''string'' = None \<or>
      (\<exists>j. ?raw3 ''string'' = Some j \<and> (\<forall>s. j \<noteq> JStr s)) \<or>
      (\<exists>s. ?raw3 ''string'' = Some (JStr s) \<and> purl_from_string s = None)"
    using bad by simp
  note t1 = validate_Purl_rejects [where raw = Map.empty and from_string = purl_from_string
      and ask = "answer Map.empty" and self = summary_parser and summary = "''a summary''",
      OF h1]
  note t2 = validate_Purl_rejects [where raw = ?raw2 and from_string = purl_from_string, OF h2]
  note t3 = validate_Purl_rejects [where raw = ?raw3 and from_string = purl_from_string
      and ask = "answer ?raw3" and cself = cpe_parser and cpe = ?cpe, OF h3]
  have v1: "validate_Purl purl_from_string Map.empty =
      Inl (SchemaValidationError [Missing ''string''])"
    using t1 by blast
  have v2: "validate_Purl purl_from_string ?raw2 =
      Inl (SchemaValidationError [StringType ''string''])"
    using t2 [THEN conjunct1] by (simp add: validate_Purl_def)
  have v3: "validate_Purl purl_from_string ?raw3 =
      Inl (SchemaValidationError [InvalidPurl ''django''])"
    using t3 [THEN conjunct1] bad by (simp add: validate_Purl_def check_valid_purl_def)
  have "\<exists>err. fst (get_purl (answer Map.empty) purl_from_string summary_parser
      ''a summary'') = Inl err"
    using t1 [THEN conjunct2, THEN conjunct2, THEN conjunct1] v1 by (simp add: answer_def)
  moreover
  have "run_sync_Purl (answer Map.empty) purl_from_string
      (VulnerabilitySummaryParser.purl_agent summary_parser) (summary_prompt ''a summary'') =
      Inl UnexpectedModelBehavior"
    using v1 by (simp add: run_sync_Purl_def summary_parser_def new_Agent_def answer_def)
  then have "fst (get_purl (answer Map.empty) purl_from_string summary_parser
      ''a summary'') = Inl UnexpectedModelBehavior"
    by (simp add: get_purl_def)
  ultimately
  have g1: "fst (get_purl (answer Map.empty) purl_from_string summary_parser
      ''a summary'') = Inl UnexpectedModelBehavior" by simp
  have "\<exists>err. fst (CPEParser_get_purl (answer ?raw3) purl_from_string cpe_parser ?cpe) =
      Inl err"
    using t3 [THEN conjunct2, THEN conjunct2, THEN conjunct2] v3 by (simp add: answer_def)
  moreover
  have "run_sync_Purl (answer ?raw3) purl_from_string
      (CPEParser.purl_agent cpe_parser) (cpe_prompt ?cpe) = Inl UnexpectedModelBehavior"
    using v3 by (simp add: run_sync_Purl_def cpe_parser_def new_Agent_def answer_def)
  then have "fst (CPEParser_get_purl (answer ?raw3) purl_from_string cpe_parser ?cpe) =
      Inl UnexpectedModelBehavior"
    by (simp add: CPEParser_get_purl_def)
  ultimately
  have g3: "fst (CPEParser_get_purl (answer ?raw3) purl_from_string cpe_parser ?cpe) =
      Inl UnexpectedModelBehavior" by simp
  from v1 v2 bad v3 g1 g3 show ?thesis by simp
qed

text \<open>
  C5. A raw model output in which \<open>affected_versions\<close> or \<open>fixed_versions\<close> is
  missing, or is not a list of strings, fails schema-B validation with
  \<open>SchemaValidationError\<close>; when both fields are lists of strings, empty or not,
  validation succeeds and returns the two lists unchanged.
\<close>

theorem validate_Versions_schema:
  "(raw ''affected_versions'' = None \<or> raw ''fixed_versions'' = None \<or>
    (\<forall>ss. raw ''affected_versions'' \<noteq> Some (JList (map JStr ss))) \<or>
    (\<forall>ss. raw ''fixed_versions'' \<noteq> Some (JList (map JStr ss))) \<longrightarrow>
      (\<exists>is. validate_Versions raw = Inl (SchemaValidationError is))) \<and>
   (raw ''affected_versions'' = Some (JList (map JStr a)) \<and>
    raw ''fixed_versions'' = Some (JList (map JStr f)) \<longrightarrow>
      validate_Versions raw = Inr \<lparr>affected_versions = a, fixed_versions = f\<rparr>)"
proof -
  have ok: "validate_Versions raw = Inr \<lparr>affected_versions = a, fixed_versions = f\<rparr>"
    if "raw ''affected_versions'' = Some (JList (map JStr a))"
      and "raw ''fixed_versions'' = Some (JList (map JStr f))"
    using that validate_Versions_Inr_iff
      [of raw "\<lparr>affected_versions = a, fixed_versions = f\<rparr>"] by simp
  have bad: "\<exists>is. validate_Versions raw = Inl (SchemaValidationError is)"
    if h: "raw ''affected_versions'' = None \<or> raw ''fixed_versions'' = None \<or>
      (\<forall>ss. raw ''affected_versions'' \<noteq> Some (JList (map JStr ss))) \<or>
      (\<forall>ss. raw ''fixed_versions'' \<noteq> Some (JList (map JStr ss)))"
  proof (cases "validate_Versions raw")
    case (Inl err)
    with validate_Versions_Inl [OF Inl] show ?thesis by blast
  next
    case (Inr out)
    with validate_Versions_Inr_iff [of raw out] h show ?thesis by auto
  qed
  from ok bad show ?thesis by blast
qed

theorem validate_Versions_schema_witness:
  "validate_Versions [''affected_versions'' \<mapsto> JList [JStr ''>=1.2.3'']] =
     Inl (SchemaValidationError [Missing ''fixed_versions'']) \<and>
   validate_Versions [''affected_versions'' \<mapsto> JList [JStr ''>=1.2.3'', JNum 2],
                      ''fixed_versions'' \<mapsto> JStr ''2.0.0''] =
     Inl (SchemaValidationError
            [ItemStringType ''affected_versions'' 1, ListType ''fixed_versions'']) \<and>
   validate_Versions [''affected_versions'' \<mapsto> JList [JStr ''>=1.2.3'', JStr ''<2.0.0''],
                      ''fixed_versions'' \<mapsto> JList []] =
     Inr \<lparr>affected_versions = [''>=1.2.3'', ''<2.0.0''], fixed_versions = []\<rparr>"
proof -
  let ?raw1 = "[''affected_versions'' \<mapsto> JList [JStr ''>=1.2.3'']]"
  let ?raw2 = "[''affected_versions'' \<mapsto> JList [JStr ''>=1.2.3'', JNum 2],
                ''fixed_versions'' \<mapsto> JStr ''2.0.0'']"
  let ?raw3 = "[''affected_versions'' \<mapsto> JList [JStr ''>=1.2.3'', JStr ''<2.0.0''],
                ''fixed_versions'' \<mapsto> JList []]"
  have "?raw1 ''fixed_versions'' = None" by simp
  with validate_Versions_schema [of ?raw1]
  have "\<exists>is. validate_Versions ?raw1 = Inl (SchemaValidationError is)" by blast
  then have one: "validate_Versions ?raw1 =
      Inl (SchemaValidationError [Missing ''fixed_versions''])"
    by (simp add: validate_Versions_def validate_list_field_def)
  have "\<forall>ss. ?raw2 ''fixed_versions'' \<noteq> Some (JList (map JStr ss))" by simp
  with validate_Versions_schema [of ?raw2]
  have "\<exists>is. validate_Versions ?raw2 = Inl (SchemaValidationError is)" by blast
  then have two: "validate_Versions ?raw2 = Inl (SchemaValidationError
      [ItemStringType ''affected_versions'' 1, ListType ''fixed_versions''])"
    by (simp add: validate_Versions_def validate_list_field_def)
  have "?raw3 ''affected_versions'' = Some (JList (map JStr [''>=1.2.3'', ''<2.0.0'']))"
    and "?raw3 ''fixed_versions'' = Some (JList (map JStr []))" by simp_all
  with validate_Versions_schema [of ?raw3 "[''>=1.2.3'', ''<2.0.0'']" "[]"]
  have three: "validate_Versions ?raw3 =
      Inr \<lparr>affected_versions = [''>=1.2.3'', ''<2.0.0''], fixed_versions = []\<rparr>" by blast
  from one two three show ?thesis by simp
qed

text \<open>
  C6. For an ecosystem identifier with no registered range class, resolving a non-empty
  constraint list fails with \<open>UnsupportedEcosystemError\<close> whatever the constraints
  are, and so does \<open>get_version_ranges\<close> as soon as the validated output has an
  affected or a fixed constraint; the lookup fails before anything is parsed.
\<close>

theorem resolve_unregistered_ecosystem:
  assumes "reg e = None"
  shows "resolve reg e (c # cs) = Inl (UnsupportedEcosystemError e) \<and>
         (run_sync_Versions ask (versions_agent self) (summary_prompt summary) = Inr out \<and>
          (affected_versions out \<noteq> [] \<or> fixed_versions out \<noteq> []) \<longrightarrow>
            fst (get_version_ranges ask reg self summary e) =
              Inl (UnsupportedEcosystemError e))"
proof -
  have r: "resolve reg e xs = Inl (UnsupportedEcosystemError e)" if "xs \<noteq> []" for xs
    using that resolve_unregistered [where reg = reg and e = e, OF assms]
    by (cases xs) auto
  have "fst (get_version_ranges ask reg self summary e) = Inl (UnsupportedEcosystemError e)"
    if run: "run_sync_Versions ask (versions_agent self) (summary_prompt summary) = Inr out"
      and ne: "affected_versions out \<noteq> [] \<or> fixed_versions out \<noteq> []"
  proof (cases "affected_versions out")
    case Nil
    with ne have "fixed_versions out \<noteq> []" by simp
    from r [OF this] run Nil show ?thesis by (simp add: get_version_ranges_def)
  next
    case (Cons x xs)
    then have "affected_versions out \<noteq> []" by simp
    from r [OF this] run show ?thesis by (simp add: get_version_ranges_def)
  qed
  with r [of "c # cs"] show ?thesis by simp
qed

theorem resolve_unregistered_ecosystem_witness:
  "sample_registry [''pypi''] ''cobol'' = None \<and>
   resolve (sample_registry [''pypi'']) ''cobol'' [''>=1.2.3''] =
     Inl (UnsupportedEcosystemError ''cobol'') \<and>
   fst (get_version_ranges
     (answer [''affected_versions'' \<mapsto> JList [],
              ''fixed_versions'' \<mapsto> JList [JStr ''2.0.0'']])
     (sample_registry [''pypi'']) (summary_parser)
     ''a summary'' ''cobol'') = Inl (UnsupportedEcosystemError ''cobol'')"
proof -
  let ?reg = "sample_registry [''pypi'']"
  let ?self = "summary_parser"
  let ?raw = "[''affected_versions'' \<mapsto> JList [], ''fixed_versions'' \<mapsto> JList [JStr ''2.0.0'']]"
  let ?out = "\<lparr>affected_versions = [], fixed_versions = [''2.0.0'']\<rparr>"
  have h: "?reg ''cobol'' = None"
    by (simp add: sample_registry_def)
  have run: "run_sync_Versions (answer ?raw) (versions_agent ?self)
      (summary_prompt ''a summary'') = Inr ?out"
    by (rule run_sync_Versions_answer)
      (simp add: validate_Versions_def validate_list_field_def)
  note t = resolve_unregistered_ecosystem [where reg = ?reg and e = "''cobol''"
      and c = "''>=1.2.3''" and cs = "[]" and ask = "answer ?raw" and self = ?self
      and summary = "''a summary''" and out = ?out, OF h]
  from t run h show ?thesis by simp
qed

text \<open>
  C7, as amended. Schema A requires the field \<open>string\<close> and schema B requires the
  fields \<open>affected_versions\<close> and \<open>fixed_versions\<close>: a model output without one
  of them fails validation. Neither schema rejects a model output for a field it does
  not declare: adding or changing a field other than \<open>string\<close> leaves the result of
  schema-A validation as it was, and adding or changing a field other than
  \<open>affected_versions\<close> and \<open>fixed_versions\<close> leaves the result of schema-B
  validation as it was.
\<close>

theorem validate_ignores_undeclared_fields:
  "(k \<noteq> ''string'' \<longrightarrow>
      validate_Purl from_string (raw(k \<mapsto> v)) = validate_Purl from_string raw) \<and>
   (k \<noteq> ''affected_versions'' \<and> k \<noteq> ''fixed_versions'' \<longrightarrow>
      validate_Versions (raw(k \<mapsto> v)) = validate_Versions raw) \<and>
   (raw ''string'' = None \<longrightarrow>
      validate_Purl from_string raw = Inl (SchemaValidationError [Missing ''string''])) \<and>
   (raw ''affected_versions'' = None \<longrightarrow>
      (\<exists>is. validate_Versions raw = Inl (SchemaValidationError is) \<and>
            Missing ''affected_versions'' \<in> set is)) \<and>
   (raw ''fixed_versions'' = None \<longrightarrow>
      (\<exists>is. validate_Versions raw = Inl (SchemaValidationError is) \<and>
            Missing ''fixed_versions'' \<in> set is))"
proof -
  have purl: "validate_Purl from_string (raw(k \<mapsto> v)) = validate_Purl from_string raw"
    if "k \<noteq> ''string''"
    using that by (simp add: validate_Purl_def)
  have field: "validate_list_field fld (raw(k \<mapsto> v)) = validate_list_field fld raw"
    if "k \<noteq> fld" for fld
    using that by (simp add: validate_list_field_def)
  have versions: "validate_Versions (raw(k \<mapsto> v)) = validate_Versions raw"
    if "k \<noteq> ''affected_versions''" and "k \<noteq> ''fixed_versions''"
    using that by (simp add: validate_Versions_def field)
  have no_string: "validate_Purl from_string raw =
      Inl (SchemaValidationError [Missing ''string''])"
    if "raw ''string'' = None"
    using that by (simp add: validate_Purl_def)
  have no_affected: "\<exists>is. validate_Versions raw = Inl (SchemaValidationError is) \<and>
      Missing ''affected_versions'' \<in> set is"
    if "raw ''affected_versions'' = None"
  proof -
    from that have "validate_list_field ''affected_versions'' raw =
        Inl [Missing ''affected_versions'']"
      by (simp add: validate_list_field_def)
    then show ?thesis
      by (cases "validate_list_field ''fixed_versions'' raw")
         (simp_all add: validate_Versions_def)
  qed
  have no_fixed: "\<exists>is. validate_Versions raw = Inl (SchemaValidationError is) \<and>
      Missing ''fixed_versions'' \<in> set is"
    if "raw ''fixed_versions'' = None"
  proof -
    from that have "validate_list_field ''fixed_versions'' raw =
        Inl [Missing ''fixed_versions'']"
      by (simp add: validate_list_field_def)
    then show ?thesis
      by (cases "validate_list_field ''affected_versions'' raw")
         (simp_all add: validate_Versions_def)
  qed
  from purl versions no_string no_affected no_fixed show ?thesis by blast
qed

theorem validate_ignores_undeclared_fields_witness:
  "validate_Purl purl_from_string
     ([''string'' \<mapsto> JStr ''pkg:pypi/django@4.2.0''](''confidence'' \<mapsto> JNum 9)) =
     validate_Purl purl_from_string [''string'' \<mapsto> JStr ''pkg:pypi/django@4.2.0''] \<and>
   validate_Versions
     ([''affected_versions'' \<mapsto> JList [JStr ''<2.0.0''],
       ''fixed_versions'' \<mapsto> JList [JStr ''2.0.0'']](''confidence'' \<mapsto> JNum 9)) =
     validate_Versions
       [''affected_versions'' \<mapsto> JList [JStr ''<2.0.0''],
        ''fixed_versions'' \<mapsto> JList [JStr ''2.0.0'']] \<and>
   validate_Purl purl_from_string [''confidence'' \<mapsto> JNum 9] =
     Inl (SchemaValidationError [Missing ''string'']) \<and>
   validate_Versions [''fixed_versions'' \<mapsto> JList [JStr ''2.0.0'']] =
     Inl (SchemaValidationError [Missing ''affected_versions'']) \<and>
   validate_Versions [''affected_versions'' \<mapsto> JList [JStr ''<2.0.0'']] =
     Inl (SchemaValidationError [Missing ''fixed_versions''])"
proof -
  have k: "''confidence'' \<noteq> ''string''"
    "''confidence'' \<noteq> ''affected_versions'' \<and> ''confidence'' \<noteq> ''fixed_versions''"
    by simp_all
  note t = validate_ignores_undeclared_fields [where k = "''confidence''" and v = "JNum 9"]
  have one: "validate_Purl purl_from_string
      ([''string'' \<mapsto> JStr ''pkg:pypi/django@4.2.0''](''confidence'' \<mapsto> JNum 9)) =
      validate_Purl purl_from_string [''string'' \<mapsto> JStr ''pkg:pypi/django@4.2.0'']"
    using t [where raw = "[''string'' \<mapsto> JStr ''pkg:pypi/django@4.2.0'']"
        and from_string = purl_from_string, THEN conjunct1] k(1) by blast
  have two: "validate_Versions
      ([''affected_versions'' \<mapsto> JList [JStr ''<2.0.0''],
        ''fixed_versions'' \<mapsto> JList [JStr ''2.0.0'']](''confidence'' \<mapsto> JNum 9)) =
      validate_Versions
        [''affected_versions'' \<mapsto> JList [JStr ''<2.0.0''],
         ''fixed_versions'' \<mapsto> JList [JStr ''2.0.0'']]"
    using t [where raw = "[''affected_versions'' \<mapsto> JList [JStr ''<2.0.0''],
          ''fixed_versions'' \<mapsto> JList [JStr ''2.0.0'']]"
        and from_string = purl_from_string, THEN conjunct2, THEN conjunct1] k(2) by blast
  have "[''confidence'' \<mapsto> JNum 9] ''string'' = None" by simp
  with t [where raw = "[''confidence'' \<mapsto> JNum 9]" and from_string = purl_from_string,
      THEN conjunct2, THEN conjunct2, THEN conjunct1]
  have three: "validate_Purl purl_from_string [''confidence'' \<mapsto> JNum 9] =
      Inl (SchemaValidationError [Missing ''string''])" by blast
  have "[''fixed_versions'' \<mapsto> JList [JStr ''2.0.0'']] ''affected_versions'' = None" by simp
  with t [where raw = "[''fixed_versions'' \<mapsto> JList [JStr ''2.0.0'']]"
      and from_string = purl_from_string,
      THEN conjunct2, THEN conjunct2, THEN conjunct2, THEN conjunct1]
  have "\<exists>is. validate_Versions [''fixed_versions'' \<mapsto> JList [JStr ''2.0.0'']] =
      Inl (SchemaValidationError is)" by blast
  then have four: "validate_Versions [''fixed_versions'' \<mapsto> JList [JStr ''2.0.0'']] =
      Inl (SchemaValidationError [Missing ''affected_versions''])"
    by (simp add: validate_Versions_def validate_list_field_def)
  have "[''affected_versions'' \<mapsto> JList [JStr ''<2.0.0'']] ''fixed_versions'' = None" by simp
  with t [where raw = "[''affected_versions'' \<mapsto> JList [JStr ''<2.0.0'']]"
      and from_string = purl_from_string,
      THEN conjunct2, THEN conjunct2, THEN conjunct2, THEN conjunct2]
  have "\<exists>is. validate_Versions [''affected_versions'' \<mapsto> JList [JStr ''<2.0.0'']] =
      Inl (SchemaValidationError is)" by blast
  then have five: "validate_Versions [''affected_versions'' \<mapsto> JList [JStr ''<2.0.0'']] =
      Inl (SchemaValidationError [Missing ''fixed_versions''])"
    by (simp add: validate_Versions_def validate_list_field_def)
  from one two three four five show ?thesis by simp
qed

text \<open>
  C7, as stated, fails: a model output with a valid \<open>string\<close> and one more field
  passes schema-A validation, and one with both version lists and one more field passes
  schema-B validation.
\<close>

theorem extra_field_accepted_counterexample:
  "validate_Purl purl_from_string
     [''string'' \<mapsto> JStr ''pkg:pypi/django@4.2.0'', ''confidence'' \<mapsto> JNum 9] =
     Inr \<lparr>string = ''pkg:pypi/django@4.2.0''\<rparr> \<and>
   validate_Versions
     [''affected_versions'' \<mapsto> JList [JStr ''<2.0.0''],
      ''fixed_versions'' \<mapsto> JList [JStr ''2.0.0''], ''confidence'' \<mapsto> JNum 9] =
     Inr \<lparr>affected_versions = [''<2.0.0''], fixed_versions = [''2.0.0'']\<rparr>"
proof -
  have "purl_from_string ''pkg:pypi/django@4.2.0'' \<noteq> None"
    by (simp add: purl_from_string_def split_first_def split_last_def optional_after_def
          optional_after_last_def or_None_def)
  then have "validate_Purl purl_from_string
      [''string'' \<mapsto> JStr ''pkg:pypi/django@4.2.0'', ''confidence'' \<mapsto> JNum 9] =
      Inr \<lparr>string = ''pkg:pypi/django@4.2.0''\<rparr>"
    by (auto simp: validate_Purl_def check_valid_purl_def)
  moreover have "validate_Versions
      [''affected_versions'' \<mapsto> JList [JStr ''<2.0.0''],
       ''fixed_versions'' \<mapsto> JList [JStr ''2.0.0''], ''confidence'' \<mapsto> JNum 9] =
      Inr \<lparr>affected_versions = [''<2.0.0''], fixed_versions = [''2.0.0'']\<rparr>"
    by (simp add: validate_Versions_def validate_list_field_def)
  ultimately show ?thesis by simp
qed

text \<open>
  C8. \<open>get_version_ranges\<close> has no case for the literal \<open>Not Fixed\<close>: it is sent to
  the range class like every other entry, as \<open>"vers:" + e + "/Not Fixed"\<close>. Where the
  range class of a registered ecosystem does not parse that string, a validated output
  whose fixed list contains \<open>Not Fixed\<close> makes the call fail with
  \<open>MalformedRangeError\<close>.
\<close>

theorem get_version_ranges_Not_Fixed_fails:
  assumes "reg e = Some cls"
    and "cls (''vers:'' @ e @ ''/Not Fixed'') = None"
    and "run_sync_Versions ask (versions_agent self) (summary_prompt summary) = Inr out"
    and "''Not Fixed'' \<in> set (fixed_versions out)"
  shows "\<exists>s. fst (get_version_ranges ask reg self summary e) = Inl (MalformedRangeError s)"
proof (cases "resolve reg e (affected_versions out)")
  case (Inl err)
  from resolve_Inl_cases [where reg = reg and e = e and cls = cls, OF assms(1) Inl]
  obtain s where "err = MalformedRangeError s" by blast
  with assms(3) Inl show ?thesis by (simp add: get_version_ranges_def)
next
  case (Inr a)
  from resolve_unparsable [where reg = reg and e = e and cls = cls, OF assms(1) assms(4)]
    assms(2)
  obtain err where err: "resolve reg e (fixed_versions out) = Inl err"
    by (auto simp: vers_string_def)
  from resolve_Inl_cases [where reg = reg and e = e and cls = cls, OF assms(1) err]
  obtain s where "err = MalformedRangeError s" by blast
  with assms(3) Inr err show ?thesis by (simp add: get_version_ranges_def)
qed

theorem get_version_ranges_Not_Fixed_fails_witness:
  "sample_registry [''pypi''] ''pypi'' = Some (sample_from_string [''pypi'']) \<and>
   sample_from_string [''pypi''] ''vers:pypi/Not Fixed'' = None \<and>
   fst (get_version_ranges
     (answer [''affected_versions'' \<mapsto> JList [JStr ''<2.0.0''],
              ''fixed_versions'' \<mapsto> JList [JStr ''Not Fixed'']])
     (sample_registry [''pypi'']) (summary_parser)
     ''no fix is known'' ''pypi'') = Inl (MalformedRangeError ''vers:pypi/Not Fixed'')"
proof -
  let ?reg = "sample_registry [''pypi'']"
  let ?cls = "sample_from_string [''pypi'']"
  let ?self = "summary_parser"
  let ?raw = "[''affected_versions'' \<mapsto> JList [JStr ''<2.0.0''],
               ''fixed_versions'' \<mapsto> JList [JStr ''Not Fixed'']]"
  let ?out = "\<lparr>affected_versions = [''<2.0.0''], fixed_versions = [''Not Fixed'']\<rparr>"
  have reg: "?reg ''pypi'' = Some ?cls"
    by (simp add: sample_registry_def)
  have bad: "?cls (''vers:'' @ ''pypi'' @ ''/Not Fixed'') = None"
    by (simp add: sample_from_string_def split_first_def split_comparator_def is_version_def)
  have run: "run_sync_Versions (answer ?raw) (versions_agent ?self)
      (summary_prompt ''no fix is known'') = Inr ?out"
    by (rule run_sync_Versions_answer)
      (simp add: validate_Versions_def validate_list_field_def)
  have mem: "''Not Fixed'' \<in> set (fixed_versions ?out)"
    by simp
  have good: "?cls ''vers:pypi/<2.0.0'' =
      Some \<lparr>versioning_scheme = ''pypi'', range_comparator = LT, range_version = ''2.0.0''\<rparr>"
    by (simp add: sample_from_string_def split_first_def split_comparator_def is_version_def)
  from get_version_ranges_Not_Fixed_fails
    [where reg = ?reg and e = "''pypi''" and cls = ?cls and ask = "answer ?raw"
       and self = ?self and summary = "''no fix is known''" and out = ?out,
     OF reg bad run mem]
  obtain s where s: "fst (get_version_ranges (answer ?raw) ?reg ?self ''no fix is known''
      ''pypi'') = Inl (MalformedRangeError s)" ..
  have "fst (get_version_ranges (answer ?raw) ?reg ?self ''no fix is known'' ''pypi'') =
      Inl (MalformedRangeError ''vers:pypi/Not Fixed'')"
    using run reg good bad by (simp add: get_version_ranges_def vers_string_def)
  with s reg bad show ?thesis by simp
qed

text \<open>
  C9. No method changes the instance: \<open>get_version_ranges\<close> and \<open>get_purl\<close> of
  \<open>VulnerabilitySummaryParser\<close> and \<open>get_purl\<close> of \<open>CPEParser\<close> return the
  instance they were given, with \<open>model\<close>, \<open>purl_agent\<close> and
  \<open>versions_agent\<close> as they were, whether the call succeeds or fails; a second call
  therefore runs on the same instance state as the first.
\<close>

theorem facade_instance_unchanged:
  "snd (get_version_ranges ask reg self summary e) = self \<and>
   snd (get_purl ask from_string self summary) = self \<and>
   snd (CPEParser_get_purl ask from_string cself cpe) = cself \<and>
   snd (get_purl ask' from_string (snd (get_version_ranges ask reg self summary e)) summary') =
     self \<and>
   get_version_ranges ask' reg' (snd (get_purl ask from_string self summary)) summary' e' =
     get_version_ranges ask' reg' self summary' e'"
  by (simp add: get_version_ranges_returns_self get_purl_returns_self
        CPEParser_get_purl_returns_self)

text \<open>
  C10. When the validated model output has no affected and no fixed constraint,
  \<open>get_version_ranges\<close> returns a pair of empty lists for every registry and every
  ecosystem identifier, registered or not: the registry is looked up once per
  constraint, so here never.
\<close>

theorem get_version_ranges_empty_lists:
  assumes "ask (versions_agent self) (summary_prompt summary) [] = Inr raw"
    and "raw ''affected_versions'' = Some (JList [])"
    and "raw ''fixed_versions'' = Some (JList [])"
  shows "fst (get_version_ranges ask reg self summary e) = Inr ([], [])"
proof -
  have v: "validate_Versions raw = Inr \<lparr>affected_versions = [], fixed_versions = []\<rparr>"
    using assms(2,3) by (simp add: validate_Versions_def validate_list_field_def)
  have "run_sync_Versions ask (versions_agent self) (summary_prompt summary) =
      Inr \<lparr>affected_versions = [], fixed_versions = []\<rparr>"
    using run_sync_Versions_first_valid
      [where ask = ask and agent = "versions_agent self"
         and user_prompt = "summary_prompt summary" and raw = raw
         and out = "\<lparr>affected_versions = [], fixed_versions = []\<rparr>"]
      assms(1) v by simp
  then show ?thesis by (simp add: get_version_ranges_def)
qed

theorem get_version_ranges_empty_lists_witness:
  "sample_registry [''pypi''] ''cobol'' = None \<and>
   fst (get_version_ranges
     (answer [''affected_versions'' \<mapsto> JList [], ''fixed_versions'' \<mapsto> JList []])
     (sample_registry [''pypi'']) (summary_parser)
     ''a summary'' ''cobol'') = Inr ([], [])"
proof -
  let ?raw = "[''affected_versions'' \<mapsto> JList [], ''fixed_versions'' \<mapsto> JList []]"
  let ?self = "summary_parser"
  have ask: "answer ?raw (versions_agent ?self) (summary_prompt ''a summary'') [] = Inr ?raw"
    by (simp add: answer_def)
  have a: "?raw ''affected_versions'' = Some (JList [])" and f: "?raw ''fixed_versions'' = Some (JList [])"
    by simp_all
  have "sample_registry [''pypi''] ''cobol'' = None"
    by (simp add: sample_registry_def)
  with get_version_ranges_empty_lists
    [where ask = "answer ?raw" and self = ?self and summary = "''a summary''" and raw = ?raw
       and reg = "sample_registry [''pypi'']" and e = "''cobol''", OF ask a f]
  show ?thesis by simp
qed

end
